theory Spec2Isabelle
  imports Main
begin

section \<open>The world \<open>load_dask\<close> runs in\<close>

text \<open>
  \<open>load_dask\<close> (load_dask.ipynb, lines 51--98) is glue between three collaborators that
  live outside the notebook: the data item that resolves to a dask dataframe, the dask
  client of the execution context, and the context's artifact logger. Their state is
  made explicit here: the context object, the cluster behind the client, the storage the
  data items resolve against, the local files, and the sequence of collaborator calls.
\<close>

type_synonym table = "string list list"

text \<open>A dask dataframe: the tabular data it denotes, and whether it has been
  materialised in cluster memory by \<open>client.persist\<close>.\<close>

record dataframe =
  frame_data :: table
  materialized :: bool

text \<open>The \<open>src_data\<close> argument: a reference (path or url) to a dataset.\<close>

datatype data_item = DataItem string

text \<open>The handle stored in the \<open>dask_client\<close> attribute of the context.\<close>

datatype client = Client nat

text \<open>
  The execution context (\<open>MLClientCtx\<close>). \<open>dask_client = None\<close> stands for a context
  without the attribute (\<open>hasattr\<close> is false); \<open>truthy\<close> is what \<open>if context:\<close> tests;
  \<open>artifacts\<close> are the (key, local path) pairs recorded by \<open>log_artifact\<close>.
\<close>

record ml_client_ctx =
  dask_client :: "client option"
  truthy :: bool
  artifacts :: "(string \<times> string) list"

text \<open>
  The cluster behind the client: the published datasets as (name, dataframe) pairs, in
  the order of publication, and the scheduler's connection information.
\<close>

record cluster =
  datasets :: "(string \<times> dataframe) list"
  scheduler_info :: string

text \<open>One entry per call of a collaborator, in call order.\<close>

datatype event =
    AsDf data_item
  | Persist dataframe
  | UnpublishDataset string
  | PublishDataset dataframe string
  | WriteSchedulerFile string
  | LogArtifact string string

record world =
  ctx :: ml_client_ctx
  dask :: cluster
  store :: "string \<rightharpoonup> table"
  files :: "string \<rightharpoonup> string"
  trace :: "event list"

text \<open>
  The errors an invocation can end with. \<open>MissingClusterError\<close> is the exception of
  line 80 (\<open>a dask client was not found in the execution context\<close>); the other two are
  raised by collaborators and pass through \<open>load_dask\<close> uncaught.
\<close>

datatype error = MissingClusterError | LoadFailure | NameCollision

definition record_call :: "event \<Rightarrow> world \<Rightarrow> world" where
  "record_call e w = w\<lparr>trace := trace w @ [e]\<rparr>"

section \<open>The collaborators\<close>

text \<open>
  Modelled from the spec: the data-loading collaborator \<open>DataItem.as_df\<close> (mlrun, not
  part of the notebook). Given a dataset reference it returns a distributed dataframe;
  a reference that does not resolve is a load failure, which the caller does not catch.
\<close>

definition as_df :: "data_item \<Rightarrow> world \<Rightarrow> (error + dataframe) \<times> world" where
  "as_df src w =
     (case src of DataItem url \<Rightarrow>
        (case store w url of
           None \<Rightarrow> (Inl LoadFailure, record_call (AsDf src) w)
         | Some t \<Rightarrow>
             (Inr \<lparr>frame_data = t, materialized = False\<rparr>, record_call (AsDf src) w)))"

text \<open>
  Modelled from the spec: the cluster client's \<open>persist(dataframe) -> handle\<close>
  (dask.distributed, not part of the notebook): the same data, materialised on the
  cluster. The registry of published names is not touched.
\<close>

definition persist :: "dataframe \<Rightarrow> world \<Rightarrow> dataframe \<times> world" where
  "persist df w = (df\<lparr>materialized := True\<rparr>, record_call (Persist df) w)"

text \<open>
  Modelled from the spec: the cluster client's queryable set of published names
  (\<open>client.datasets\<close>), with Python's truth value of a mapping (non-empty) and its
  membership test.
\<close>

definition datasets_truthy :: "world \<Rightarrow> bool" where
  "datasets_truthy w = (datasets (dask w) \<noteq> [])"

definition in_datasets :: "string \<Rightarrow> world \<Rightarrow> bool" where
  "in_datasets name w = (name \<in> set (map fst (datasets (dask w))))"

text \<open>
  Modelled from the spec: the cluster client's \<open>unpublish_dataset(name)\<close>: every
  registration under the name is removed.
\<close>

definition unpublish_dataset :: "string \<Rightarrow> world \<Rightarrow> world" where
  "unpublish_dataset name w =
     record_call (UnpublishDataset name)
       (w\<lparr>dask := (dask w)\<lparr>datasets := filter (\<lambda>p. fst p \<noteq> name) (datasets (dask w))\<rparr>\<rparr>)"

text \<open>
  Modelled from the spec: the cluster client's \<open>publish_dataset(handle, name)\<close>.
  At most one dataset may be registered per name: publishing under a name that is
  taken is a naming collision and registers nothing.
\<close>

definition publish_dataset :: "dataframe \<Rightarrow> string \<Rightarrow> world \<Rightarrow> (error + unit) \<times> world" where
  "publish_dataset df name w =
     (if in_datasets name w
      then (Inl NameCollision, record_call (PublishDataset df name) w)
      else (Inr (),
            record_call (PublishDataset df name)
              (w\<lparr>dask := (dask w)\<lparr>datasets := datasets (dask w) @ [(name, df)]\<rparr>\<rparr>)))"

text \<open>
  Modelled from the spec: the cluster client's \<open>write_scheduler_file(path)\<close>: the
  scheduler's current connection information becomes the content of the file, whatever
  the file held before.
\<close>

definition write_scheduler_file :: "string \<Rightarrow> world \<Rightarrow> world" where
  "write_scheduler_file path w =
     record_call (WriteSchedulerFile path)
       (w\<lparr>files := (files w)(path \<mapsto> scheduler_info (dask w))\<rparr>)"

text \<open>
  Modelled from the spec: the artifact-logging collaborator \<open>context.log_artifact\<close>
  (mlrun, not part of the notebook): the (key, local path) pair is recorded as an output
  of the run.
\<close>

definition log_artifact :: "string \<Rightarrow> string \<Rightarrow> world \<Rightarrow> world" where
  "log_artifact key local_path w =
     record_call (LogArtifact key local_path)
       (w\<lparr>ctx := (ctx w)\<lparr>artifacts := artifacts (ctx w) @ [(key, local_path)]\<rparr>\<rparr>)"

section \<open>\<open>load_dask\<close>\<close>

text \<open>Lines 84--88: persist the dataframe and publish it under \<open>dask_key\<close>, removing a
  registration already there.\<close>

definition persist_and_publish :: "dataframe \<Rightarrow> string \<Rightarrow> world \<Rightarrow> (error + dataframe) \<times> world" where
  "persist_and_publish df dask_key w =
     (case persist df w of (df', w1) \<Rightarrow>
        (let w2 = (if datasets_truthy w1 \<and> in_datasets dask_key w1
                   then unpublish_dataset dask_key w1 else w1)
         in case publish_dataset df' dask_key w2 of
              (Inl e, w3) \<Rightarrow> (Inl e, w3)
            | (Inr u, w3) \<Rightarrow> (Inr df', w3)))"

text \<open>Lines 90--98: store the client back on the context, write the scheduler file, log
  it. The function has no \<open>return\<close> statement and is annotated \<open>-> None\<close>: the value
  handed to the caller is Python's \<open>None\<close>, written \<open>None\<close> here; \<open>Some d\<close> would be a
  scheduler descriptor \<open>d\<close>.\<close>

definition share_scheduler :: "client \<Rightarrow> string \<Rightarrow> world \<Rightarrow> (error + string option) \<times> world" where
  "share_scheduler dc scheduler_key w =
     (let w1 = (if truthy (ctx w) then w\<lparr>ctx := (ctx w)\<lparr>dask_client := Some dc\<rparr>\<rparr> else w);
          w2 = write_scheduler_file (scheduler_key @ ''.json'') w1;
          w3 = log_artifact scheduler_key (scheduler_key @ ''.json'') w2
      in (Inr None, w3))"

text \<open>
  The whole function. The context argument is the \<open>ctx\<close> of the world, since Python
  passes the object by reference and the function mutates it. \<open>inc_cols\<close>,
  \<open>index_cols\<close> and \<open>refresh_data\<close> are parameters of the source that its body never
  reads.
\<close>

definition load_dask ::
  "data_item \<Rightarrow> string \<Rightarrow> string list option \<Rightarrow> string list option \<Rightarrow> bool \<Rightarrow> bool \<Rightarrow> string
     \<Rightarrow> world \<Rightarrow> (error + string option) \<times> world" where
  "load_dask src_data dask_key inc_cols index_cols dask_persist refresh_data scheduler_key w =
     (case dask_client (ctx w) of
        None \<Rightarrow> (Inl MissingClusterError, w)
      | Some dc \<Rightarrow>
          (case as_df src_data w of
             (Inl e, w1) \<Rightarrow> (Inl e, w1)
           | (Inr df, w1) \<Rightarrow>
               (if dask_persist
                then (case persist_and_publish df dask_key w1 of
                        (Inl e, w2) \<Rightarrow> (Inl e, w2)
                      | (Inr df', w2) \<Rightarrow> share_scheduler dc scheduler_key w2)
                else share_scheduler dc scheduler_key w1)))"

text \<open>The calls an invocation added to the trace.\<close>

definition calls_made :: "world \<Rightarrow> world \<Rightarrow> event list" where
  "calls_made w w' = drop (length (trace w)) (trace w')"

text \<open>The registrations under one name.\<close>

definition registrations :: "string \<Rightarrow> world \<Rightarrow> (string \<times> dataframe) list" where
  "registrations name w = filter (\<lambda>p. fst p = name) (datasets (dask w))"

text \<open>The calls that materialise data on the cluster or change its registry:
  \<open>persist\<close>, \<open>unpublish_dataset\<close> and \<open>publish_dataset\<close>.\<close>

fun registry_call :: "event \<Rightarrow> bool" where
  "registry_call (Persist df) = True"
| "registry_call (UnpublishDataset n) = True"
| "registry_call (PublishDataset df n) = True"
| "registry_call e = False"

text \<open>A call that writes a scheduler file writes it to \<open>path\<close>, and a call that
  logs an artifact logs \<open>path\<close> under \<open>key\<close>; other calls are not constrained.\<close>

fun descriptor_call_named :: "string \<Rightarrow> string \<Rightarrow> event \<Rightarrow> bool" where
  "descriptor_call_named key path (WriteSchedulerFile p) = (p = path)"
| "descriptor_call_named key path (LogArtifact k p) = (k = key \<and> p = path)"
| "descriptor_call_named key path e = True"

section \<open>A concrete run\<close>

text \<open>The setting of the notebook's test cell: a context with a client, an empty
  cluster, and \<open>iris.parquet\<close> in storage.\<close>

definition iris :: table where
  "iris = [[''5.1'', ''3.5'', ''setosa''], [''7.0'', ''3.2'', ''versicolor'']]"

definition wine :: table where
  "wine = [[''13.2'', ''1.78'', ''0'']]"

definition world0 :: world where
  "world0 =
     \<lparr>ctx = \<lparr>dask_client = Some (Client 1), truthy = True, artifacts = []\<rparr>,
      dask = \<lparr>datasets = [], scheduler_info = ''{address: tcp://10.0.0.1:8786}''\<rparr>,
      store = [''iris.parquet'' \<mapsto> iris, ''wine.parquet'' \<mapsto> wine],
      files = Map.empty,
      trace = []\<rparr>"

text \<open>The same setting with no \<open>dask_client\<close> attribute on the context.\<close>

definition world_no_client :: world where
  "world_no_client = world0\<lparr>ctx := (ctx world0)\<lparr>dask_client := None\<rparr>\<rparr>"

text \<open>A cluster on which \<open>dask_key\<close> and another name are already published.\<close>

definition world1 :: world where
  "world1 = world0\<lparr>dask := (dask world0)\<lparr>datasets :=
       [(''other'', \<lparr>frame_data = wine, materialized = True\<rparr>),
        (''dask_key'', \<lparr>frame_data = wine, materialized = True\<rparr>)]\<rparr>\<rparr>"

text \<open>The same, with a \<open>scheduler.json\<close> left behind by an earlier run against another
  scheduler.\<close>

definition world2 :: world where
  "world2 =
     world1\<lparr>files := [''scheduler.json'' \<mapsto> ''{address: tcp://192.168.0.7:8786}'']\<rparr>"

text \<open>Two runs in succession under the same name: first \<open>iris.parquet\<close>, then
  \<open>wine.parquet\<close>.\<close>

definition after_iris :: world where
  "after_iris = snd (load_dask (DataItem ''iris.parquet'') ''dask_key'' None None True True
                       ''scheduler'' world0)"

definition after_wine :: world where
  "after_wine = snd (load_dask (DataItem ''wine.parquet'') ''dask_key'' None None True True
                       ''scheduler'' after_iris)"

section \<open>What a run does\<close>

lemmas collab_defs = as_df_def persist_def datasets_truthy_def in_datasets_def
  unpublish_dataset_def publish_dataset_def write_scheduler_file_def log_artifact_def
  record_call_def

lemma filter_fst_neq_notin:
  "name \<notin> fst ` set ds \<Longrightarrow> filter (\<lambda>p. fst p \<noteq> name) ds = ds"
  by (induction ds) auto

lemma map_of_unpublished: "map_of (filter (\<lambda>p. fst p \<noteq> k) ds) k = None"
  by (induction ds) auto

text \<open>The two calls that come before the registry is consulted leave it alone.\<close>

lemma as_df_datasets: "datasets (dask (snd (as_df src w))) = datasets (dask w)"
  by (cases src) (simp add: as_df_def record_call_def split: option.splits)

lemma persist_datasets: "datasets (dask (snd (persist df w))) = datasets (dask w)"
  by (simp add: persist_def record_call_def)

text \<open>
  Lines 84--88 never fail: the name is free when \<open>publish_dataset\<close> is reached, because
  a registration found under it has just been removed.
\<close>

lemma persist_and_publish_eq:
  "persist_and_publish df k w =
     (Inr (df\<lparr>materialized := True\<rparr>),
      w\<lparr>dask := (dask w)\<lparr>datasets :=
             filter (\<lambda>p. fst p \<noteq> k) (datasets (dask w)) @ [(k, df\<lparr>materialized := True\<rparr>)]\<rparr>,
        trace := trace w @ Persist df
                   # (if in_datasets k w then [UnpublishDataset k] else [])
                   @ [PublishDataset (df\<lparr>materialized := True\<rparr>) k]\<rparr>)"
  by (auto simp: persist_and_publish_def collab_defs filter_fst_neq_notin Let_def)

lemma share_scheduler_eq:
  "share_scheduler dc sk w =
     (Inr None,
      w\<lparr>ctx := (ctx w)\<lparr>dask_client := (if truthy (ctx w) then Some dc else dask_client (ctx w)),
                      artifacts := artifacts (ctx w) @ [(sk, sk @ ''.json'')]\<rparr>,
        files := (files w)(sk @ ''.json'' \<mapsto> scheduler_info (dask w)),
        trace := trace w @ [WriteSchedulerFile (sk @ ''.json''), LogArtifact sk (sk @ ''.json'')]\<rparr>)"
  by (simp add: share_scheduler_def collab_defs Let_def)

text \<open>A run succeeds exactly when the context has a client and the data item resolves.\<close>

lemma load_dask_success_iff:
  "(\<exists>v w'. load_dask src k ic xc p r sk w = (Inr v, w'))
     \<longleftrightarrow> (\<exists>dc url t. dask_client (ctx w) = Some dc \<and> src = DataItem url \<and> store w url = Some t)"
  by (cases src)
     (auto simp: load_dask_def as_df_def persist_and_publish_eq share_scheduler_eq
           split: option.splits)

lemma load_dask_successD:
  assumes "load_dask src k ic xc p r sk w = (Inr v, w')"
  obtains dc url t
  where "dask_client (ctx w) = Some dc" "src = DataItem url" "store w url = Some t"
  using assms load_dask_success_iff by blast

text \<open>The three ways a run with a client can go, with the world each one leaves.\<close>

lemma load_dask_persist_eq:
  assumes "dask_client (ctx w) = Some dc" "store w url = Some t"
  shows "load_dask (DataItem url) k ic xc True r sk w =
     (Inr None,
      w\<lparr>ctx := (ctx w)\<lparr>artifacts := artifacts (ctx w) @ [(sk, sk @ ''.json'')]\<rparr>,
        dask := (dask w)\<lparr>datasets := filter (\<lambda>p. fst p \<noteq> k) (datasets (dask w))
                    @ [(k, \<lparr>frame_data = t, materialized = True\<rparr>)]\<rparr>,
        files := (files w)(sk @ ''.json'' \<mapsto> scheduler_info (dask w)),
        trace := trace w @ [AsDf (DataItem url), Persist \<lparr>frame_data = t, materialized = False\<rparr>]
                   @ (if in_datasets k w then [UnpublishDataset k] else [])
                   @ [PublishDataset \<lparr>frame_data = t, materialized = True\<rparr> k,
                      WriteSchedulerFile (sk @ ''.json''), LogArtifact sk (sk @ ''.json'')]\<rparr>)"
  using assms
  by (cases "ctx w")
     (auto simp: load_dask_def as_df_def record_call_def persist_and_publish_eq share_scheduler_eq
        in_datasets_def)

lemma load_dask_no_persist_eq:
  assumes "dask_client (ctx w) = Some dc" "store w url = Some t"
  shows "load_dask (DataItem url) k ic xc False r sk w =
     (Inr None,
      w\<lparr>ctx := (ctx w)\<lparr>artifacts := artifacts (ctx w) @ [(sk, sk @ ''.json'')]\<rparr>,
        files := (files w)(sk @ ''.json'' \<mapsto> scheduler_info (dask w)),
        trace := trace w @ [AsDf (DataItem url),
                      WriteSchedulerFile (sk @ ''.json''), LogArtifact sk (sk @ ''.json'')]\<rparr>)"
  using assms
  by (cases "ctx w")
     (auto simp: load_dask_def as_df_def record_call_def share_scheduler_eq)

lemma load_dask_load_failure_eq:
  assumes "dask_client (ctx w) = Some dc" "store w url = None"
  shows "load_dask (DataItem url) k ic xc p r sk w =
     (Inl LoadFailure, w\<lparr>trace := trace w @ [AsDf (DataItem url)]\<rparr>)"
  using assms by (simp add: load_dask_def as_df_def record_call_def)

lemma calls_made_append [simp]: "calls_made w (w'\<lparr>trace := trace w @ es\<rparr>) = es"
  by (simp add: calls_made_def)

text \<open>What every successful run leaves behind, whatever \<open>dask_persist\<close> was.\<close>

lemma load_dask_success_world:
  assumes "load_dask src k ic xc p r sk w = (Inr v, w')"
  shows "v = None
         \<and> (\<exists>pre. trace w' = trace w @ pre
                     @ [WriteSchedulerFile (sk @ ''.json''), LogArtifact sk (sk @ ''.json'')]
                  \<and> (\<forall>e \<in> set pre. \<forall>path key.
                        e \<noteq> WriteSchedulerFile path \<and> e \<noteq> LogArtifact key path))
         \<and> files w' = (files w)(sk @ ''.json'' \<mapsto> scheduler_info (dask w))
         \<and> artifacts (ctx w') = artifacts (ctx w) @ [(sk, sk @ ''.json'')]
         \<and> dask_client (ctx w') = dask_client (ctx w)"
proof -
  from assms obtain dc url t where c: "dask_client (ctx w) = Some dc"
    and src: "src = DataItem url" and st: "store w url = Some t"
    by (rule load_dask_successD)
  show ?thesis
  proof (cases p)
    case True
    with assms src have "(Inr v, w') = load_dask (DataItem url) k ic xc True r sk w" by simp
    then show ?thesis
      unfolding load_dask_persist_eq [OF c st] by auto
  next
    case False
    with assms src have "(Inr v, w') = load_dask (DataItem url) k ic xc False r sk w" by simp
    then show ?thesis
      unfolding load_dask_no_persist_eq [OF c st] by auto
  qed
qed

text \<open>The calls of any run, successful or not.\<close>

lemma load_dask_calls:
  "\<exists>es. trace (snd (load_dask src k ic xc p r sk w)) = trace w @ es
        \<and> (\<forall>e \<in> set es. descriptor_call_named sk (sk @ ''.json'') e)
        \<and> (\<forall>n. UnpublishDataset n \<in> set es \<longrightarrow>
               n = k \<and> p \<and> datasets_truthy w \<and> in_datasets k w
               \<and> (\<exists>df post. es = [AsDf src, Persist df, UnpublishDataset k] @ post))"
  by (cases src; cases p)
     (auto simp: load_dask_def as_df_def record_call_def share_scheduler_eq
        persist_and_publish_eq in_datasets_def datasets_truthy_def
           split: option.splits)

lemma load_dask_no_persist_frame:
  "datasets (dask (snd (load_dask src k ic xc False r sk w))) = datasets (dask w)
   \<and> (\<exists>es. trace (snd (load_dask src k ic xc False r sk w)) = trace w @ es
             \<and> (\<forall>e \<in> set es. \<not> registry_call e))"
  by (cases src)
     (auto simp: load_dask_def as_df_def record_call_def share_scheduler_eq
           split: option.splits)

text \<open>Facts about the concrete worlds.\<close>

lemma world0_client: "dask_client (ctx world0) = Some (Client 1)"
  by (simp add: world0_def)

lemma world0_iris: "store world0 ''iris.parquet'' = Some iris"
  by (simp add: world0_def)

lemma world0_wine: "store world0 ''wine.parquet'' = Some wine"
  by (simp add: world0_def)

lemma iris_neq_wine: "iris \<noteq> wine"
  by (simp add: iris_def wine_def)

lemma world1_client: "dask_client (ctx world1) = Some (Client 1)"
  by (simp add: world1_def world0_def)

lemma world1_iris: "store world1 ''iris.parquet'' = Some iris"
  by (simp add: world1_def world0_def)

lemma world1_registered: "in_datasets ''dask_key'' world1"
  by (simp add: in_datasets_def world1_def world0_def)

lemma world2_client: "dask_client (ctx world2) = Some (Client 1)"
  by (simp add: world2_def world1_def world0_def)

lemma world2_iris: "store world2 ''iris.parquet'' = Some iris"
  by (simp add: world2_def world1_def world0_def)

section \<open>Properties\<close>

text \<open>
  C1. When the execution context has no \<open>dask_client\<close> attribute, \<open>load_dask\<close> fails
  with \<open>MissingClusterError\<close> before any side effect: the world it leaves is the world
  it found (same registry, same files, same artifacts), and no collaborator was called,
  so no load was attempted.
\<close>

theorem load_dask_missing_client:
  assumes "dask_client (ctx w) = None"
  shows "load_dask src_data dask_key inc_cols index_cols dask_persist refresh_data scheduler_key w
           = (Inl MissingClusterError, w)
         \<and> calls_made w
             (snd (load_dask src_data dask_key inc_cols index_cols dask_persist refresh_data
                     scheduler_key w)) = []"
  using assms by (simp add: load_dask_def calls_made_def)

theorem load_dask_missing_client_witness:
  "dask_client (ctx world_no_client) = None
   \<and> load_dask (DataItem ''iris.parquet'') ''dask_key'' None None True True ''scheduler''
       world_no_client = (Inl MissingClusterError, world_no_client)"
proof -
  have h: "dask_client (ctx world_no_client) = None"
    by (simp add: world_no_client_def)
  show ?thesis
    using h load_dask_missing_client [OF h] by simp
qed

text \<open>
  C2. From any registry, a run with \<open>dask_persist = True\<close> (a client on the context, a
  data item that resolves) succeeds and ends with exactly one registration under
  \<open>dask_key\<close>, that of the new materialised dataframe. The registrations under other
  names are as before. When the name was already registered, \<open>unpublish_dataset\<close> is
  called before \<open>publish_dataset\<close>.
\<close>

theorem load_dask_persist_one_registration:
  assumes "dask_client (ctx w) = Some dc" and "store w url = Some t"
  shows "\<exists>w'. load_dask (DataItem url) dask_key inc_cols index_cols True refresh_data
                scheduler_key w = (Inr None, w')
           \<and> registrations dask_key w' = [(dask_key, \<lparr>frame_data = t, materialized = True\<rparr>)]
           \<and> length (registrations dask_key w') = 1
           \<and> (\<forall>n. n \<noteq> dask_key \<longrightarrow> registrations n w' = registrations n w)
           \<and> calls_made w w' =
                [AsDf (DataItem url), Persist \<lparr>frame_data = t, materialized = False\<rparr>]
                @ (if in_datasets dask_key w then [UnpublishDataset dask_key] else [])
                @ [PublishDataset \<lparr>frame_data = t, materialized = True\<rparr> dask_key,
                   WriteSchedulerFile (scheduler_key @ ''.json''),
                   LogArtifact scheduler_key (scheduler_key @ ''.json'')]"
  unfolding load_dask_persist_eq [OF assms]
  by (auto simp: registrations_def intro!: filter_cong)

theorem load_dask_persist_one_registration_witness:
  "dask_client (ctx world1) = Some (Client 1) \<and> store world1 ''iris.parquet'' = Some iris
   \<and> registrations ''dask_key'' world1
       = [(''dask_key'', \<lparr>frame_data = wine, materialized = True\<rparr>)]
   \<and> fst (load_dask (DataItem ''iris.parquet'') ''dask_key'' None None True True
            ''scheduler'' world1) = Inr None
   \<and> registrations ''dask_key''
       (snd (load_dask (DataItem ''iris.parquet'') ''dask_key'' None None True True
               ''scheduler'' world1))
       = [(''dask_key'', \<lparr>frame_data = iris, materialized = True\<rparr>)]
   \<and> calls_made world1
       (snd (load_dask (DataItem ''iris.parquet'') ''dask_key'' None None True True
               ''scheduler'' world1))
       = [AsDf (DataItem ''iris.parquet''), Persist \<lparr>frame_data = iris, materialized = False\<rparr>,
          UnpublishDataset ''dask_key'',
          PublishDataset \<lparr>frame_data = iris, materialized = True\<rparr> ''dask_key'',
          WriteSchedulerFile ''scheduler.json'',
          LogArtifact ''scheduler'' ''scheduler.json'']"
proof -
  have r: "registrations ''dask_key'' world1
             = [(''dask_key'', \<lparr>frame_data = wine, materialized = True\<rparr>)]"
    by (simp add: registrations_def world1_def world0_def)
  from load_dask_persist_one_registration [OF world1_client world1_iris,
      of "''dask_key''" None None True "''scheduler''"]
  show ?thesis using world1_client world1_iris world1_registered r by auto
qed

text \<open>
  C3. With \<open>dask_persist = False\<close> and a client on the context, the registry of the
  cluster after the run is the registry before it, whatever it held, and the run makes
  no \<open>persist\<close>, \<open>publish_dataset\<close> or \<open>unpublish_dataset\<close> call. This holds whether
  the run succeeds or the load fails.
\<close>

theorem load_dask_no_persist_registry_unchanged:
  assumes "dask_client (ctx w) = Some dc"
  shows "datasets (dask (snd (load_dask src_data dask_key inc_cols index_cols False refresh_data
                                scheduler_key w))) = datasets (dask w)
         \<and> (\<forall>e \<in> set (calls_made w (snd (load_dask src_data dask_key inc_cols index_cols False
                                            refresh_data scheduler_key w))).
               \<not> registry_call e)"
proof -
  from load_dask_no_persist_frame [of src_data dask_key inc_cols index_cols refresh_data
      scheduler_key w]
  obtain es where "datasets (dask (snd (load_dask src_data dask_key inc_cols index_cols False
                                refresh_data scheduler_key w))) = datasets (dask w)"
    and "trace (snd (load_dask src_data dask_key inc_cols index_cols False refresh_data
                       scheduler_key w)) = trace w @ es"
    and "\<forall>e \<in> set es. \<not> registry_call e"
    by blast
  then show ?thesis by (simp add: calls_made_def)
qed

theorem load_dask_no_persist_registry_unchanged_witness:
  "dask_client (ctx world1) = Some (Client 1)
   \<and> fst (load_dask (DataItem ''iris.parquet'') ''dask_key'' None None False True
            ''scheduler'' world1) = Inr None
   \<and> datasets (dask (snd (load_dask (DataItem ''iris.parquet'') ''dask_key'' None None False True
                           ''scheduler'' world1)))
       = [(''other'', \<lparr>frame_data = wine, materialized = True\<rparr>),
          (''dask_key'', \<lparr>frame_data = wine, materialized = True\<rparr>)]"
proof -
  have d: "datasets (dask world1)
             = [(''other'', \<lparr>frame_data = wine, materialized = True\<rparr>),
                (''dask_key'', \<lparr>frame_data = wine, materialized = True\<rparr>)]"
    by (simp add: world1_def)
  have s: "fst (load_dask (DataItem ''iris.parquet'') ''dask_key'' None None False True
                  ''scheduler'' world1) = Inr None"
    by (simp add: load_dask_no_persist_eq [OF world1_client world1_iris])
  from load_dask_no_persist_registry_unchanged [OF world1_client,
      of "DataItem ''iris.parquet''" "''dask_key''" None None True "''scheduler''"]
  show ?thesis using world1_client d s by simp
qed

text \<open>
  C4. Every successful run, with \<open>dask_persist\<close> true or false, ends by writing the
  scheduler file and then logging it as an artifact under \<open>scheduler_key\<close>: these are
  the last two calls, the file holds the scheduler's connection information, and the
  artifact is on the context.
\<close>

theorem load_dask_scheduler_file_written_and_logged:
  assumes "load_dask src_data dask_key inc_cols index_cols dask_persist refresh_data
             scheduler_key w = (Inr v, w')"
  shows "(\<exists>pre. calls_made w w' =
            pre @ [WriteSchedulerFile (scheduler_key @ ''.json''),
                   LogArtifact scheduler_key (scheduler_key @ ''.json'')])
         \<and> files w' (scheduler_key @ ''.json'') = Some (scheduler_info (dask w))
         \<and> (scheduler_key, scheduler_key @ ''.json'') \<in> set (artifacts (ctx w'))"
proof -
  from load_dask_success_world [OF assms]
  obtain pre where t: "trace w' = trace w @ pre
       @ [WriteSchedulerFile (scheduler_key @ ''.json''),
          LogArtifact scheduler_key (scheduler_key @ ''.json'')]"
    and f: "files w' = (files w)(scheduler_key @ ''.json'' \<mapsto> scheduler_info (dask w))"
    and a: "artifacts (ctx w') = artifacts (ctx w) @ [(scheduler_key, scheduler_key @ ''.json'')]"
    by blast
  from t have "calls_made w w' = pre @ [WriteSchedulerFile (scheduler_key @ ''.json''),
                   LogArtifact scheduler_key (scheduler_key @ ''.json'')]"
    by (simp add: calls_made_def)
  with f a show ?thesis by simp
qed

theorem load_dask_scheduler_file_written_and_logged_witness:
  "fst (load_dask (DataItem ''iris.parquet'') ''dask_key'' None None False True ''scheduler''
          world0) = Inr None
   \<and> files (snd (load_dask (DataItem ''iris.parquet'') ''dask_key'' None None False True
                   ''scheduler'' world0)) ''scheduler.json''
       = Some ''{address: tcp://10.0.0.1:8786}''
   \<and> (''scheduler'', ''scheduler.json'')
       \<in> set (artifacts (ctx (snd (load_dask (DataItem ''iris.parquet'') ''dask_key'' None None
                                      False True ''scheduler'' world0))))
   \<and> fst (load_dask (DataItem ''iris.parquet'') ''dask_key'' None None True True ''scheduler''
          world0) = Inr None
   \<and> files (snd (load_dask (DataItem ''iris.parquet'') ''dask_key'' None None True True
                   ''scheduler'' world0)) ''scheduler.json''
       = Some ''{address: tcp://10.0.0.1:8786}''
   \<and> (''scheduler'', ''scheduler.json'')
       \<in> set (artifacts (ctx (snd (load_dask (DataItem ''iris.parquet'') ''dask_key'' None None
                                      True True ''scheduler'' world0))))"
proof -
  have n: "load_dask (DataItem ''iris.parquet'') ''dask_key'' None None False True ''scheduler''
             world0
           = (Inr None, snd (load_dask (DataItem ''iris.parquet'') ''dask_key'' None None False
                               True ''scheduler'' world0))"
    by (simp add: load_dask_no_persist_eq [OF world0_client world0_iris])
  have p: "load_dask (DataItem ''iris.parquet'') ''dask_key'' None None True True ''scheduler''
             world0
           = (Inr None, snd (load_dask (DataItem ''iris.parquet'') ''dask_key'' None None True
                               True ''scheduler'' world0))"
    by (simp add: load_dask_persist_eq [OF world0_client world0_iris])
  have i: "scheduler_info (dask world0) = ''{address: tcp://10.0.0.1:8786}''"
    by (simp add: world0_def)
  from load_dask_scheduler_file_written_and_logged [OF n]
       load_dask_scheduler_file_written_and_logged [OF p]
  show ?thesis using n p i by (simp add: prod_eq_iff)
qed

text \<open>
  C5, as the specification states it: every successful run returns the scheduler
  descriptor to its caller. It does not: the run of the notebook's test cell succeeds
  and returns \<open>None\<close>, not the scheduler's connection information.
\<close>

theorem load_dask_returns_descriptor_counterexample:
  "fst (load_dask (DataItem ''iris.parquet'') ''dask_key'' None None True True ''scheduler''
          world0) = Inr None
   \<and> fst (load_dask (DataItem ''iris.parquet'') ''dask_key'' None None True True ''scheduler''
          world0) \<noteq> Inr (Some (scheduler_info (dask world0)))"
  by (simp add: load_dask_persist_eq [OF world0_client world0_iris])

text \<open>
  C5, amended: every successful run returns \<open>None\<close> to its caller; the scheduler
  descriptor reaches the caller through the file \<open>scheduler_key + ".json"\<close>, which
  holds the scheduler's connection information when the run returns.
\<close>

theorem load_dask_returns_none:
  assumes "load_dask src_data dask_key inc_cols index_cols dask_persist refresh_data
             scheduler_key w = (Inr v, w')"
  shows "v = None
         \<and> files w' (scheduler_key @ ''.json'') = Some (scheduler_info (dask w))"
  using load_dask_success_world [OF assms] by simp

theorem load_dask_returns_none_witness:
  "load_dask (DataItem ''iris.parquet'') ''dask_key'' None None True True ''scheduler'' world1
     = (Inr None, snd (load_dask (DataItem ''iris.parquet'') ''dask_key'' None None True True
                         ''scheduler'' world1))
   \<and> files (snd (load_dask (DataItem ''iris.parquet'') ''dask_key'' None None True True
                         ''scheduler'' world1)) ''scheduler.json''
       = Some (scheduler_info (dask world1))"
proof -
  have p: "load_dask (DataItem ''iris.parquet'') ''dask_key'' None None True True ''scheduler''
             world1
           = (Inr None, snd (load_dask (DataItem ''iris.parquet'') ''dask_key'' None None True
                               True ''scheduler'' world1))"
    by (simp add: load_dask_persist_eq [OF world1_client world1_iris])
  from load_dask_returns_none [OF p] show ?thesis using p by simp
qed

text \<open>
  C6. In every run with scheduler key \<open>k\<close>, a call of \<open>write_scheduler_file\<close> names the
  file \<open>k + ".json"\<close> and a call of \<open>log_artifact\<close> passes the key \<open>k\<close> and the same
  \<open>k + ".json"\<close> as local path. A successful run makes each call once, the write first
  and the log last, and the files it leaves are the files it found with \<open>k + ".json"\<close>
  replaced by the scheduler's current connection information: what the file held before
  has no part in what it holds after.
\<close>

theorem load_dask_scheduler_file_name:
  "(\<forall>e \<in> set (calls_made w (snd (load_dask src_data dask_key inc_cols index_cols dask_persist
                                   refresh_data scheduler_key w))).
       descriptor_call_named scheduler_key (scheduler_key @ ''.json'') e)
   \<and> (\<forall>v w'. load_dask src_data dask_key inc_cols index_cols dask_persist refresh_data
                scheduler_key w = (Inr v, w') \<longrightarrow>
         (\<exists>pre. calls_made w w' =
            pre @ [WriteSchedulerFile (scheduler_key @ ''.json''),
                   LogArtifact scheduler_key (scheduler_key @ ''.json'')]
            \<and> (\<forall>e \<in> set pre. \<forall>path key.
                  e \<noteq> WriteSchedulerFile path \<and> e \<noteq> LogArtifact key path))
         \<and> files w' = (files w)(scheduler_key @ ''.json'' \<mapsto> scheduler_info (dask w)))"
proof (intro conjI allI impI)
  from load_dask_calls [of src_data dask_key inc_cols index_cols dask_persist refresh_data
      scheduler_key w]
  show "\<forall>e \<in> set (calls_made w (snd (load_dask src_data dask_key inc_cols index_cols dask_persist
                                   refresh_data scheduler_key w))).
       descriptor_call_named scheduler_key (scheduler_key @ ''.json'') e"
    by (auto simp: calls_made_def)
next
  fix v w'
  assume ok: "load_dask src_data dask_key inc_cols index_cols dask_persist refresh_data
                scheduler_key w = (Inr v, w')"
  from load_dask_success_world [OF ok]
  show "\<exists>pre. calls_made w w' =
            pre @ [WriteSchedulerFile (scheduler_key @ ''.json''),
                   LogArtifact scheduler_key (scheduler_key @ ''.json'')]
            \<and> (\<forall>e \<in> set pre. \<forall>path key.
                  e \<noteq> WriteSchedulerFile path \<and> e \<noteq> LogArtifact key path)"
    by (auto simp: calls_made_def)
  from load_dask_success_world [OF ok]
  show "files w' = (files w)(scheduler_key @ ''.json'' \<mapsto> scheduler_info (dask w))"
    by simp
qed

theorem load_dask_scheduler_file_name_witness:
  "files world2 ''scheduler.json'' = Some ''{address: tcp://192.168.0.7:8786}''
   \<and> load_dask (DataItem ''iris.parquet'') ''dask_key'' None None True True ''scheduler'' world2
     = (Inr None, snd (load_dask (DataItem ''iris.parquet'') ''dask_key'' None None True True
                         ''scheduler'' world2))
   \<and> files (snd (load_dask (DataItem ''iris.parquet'') ''dask_key'' None None True True
                         ''scheduler'' world2)) ''scheduler.json''
       = Some ''{address: tcp://10.0.0.1:8786}''
   \<and> WriteSchedulerFile ''scheduler.json''
       \<in> set (calls_made world2 (snd (load_dask (DataItem ''iris.parquet'') ''dask_key'' None None
                                          True True ''scheduler'' world2)))"
proof -
  have p: "load_dask (DataItem ''iris.parquet'') ''dask_key'' None None True True ''scheduler''
             world2
           = (Inr None, snd (load_dask (DataItem ''iris.parquet'') ''dask_key'' None None True
                               True ''scheduler'' world2))"
    by (simp add: load_dask_persist_eq [OF world2_client world2_iris])
  have f: "files world2 ''scheduler.json'' = Some ''{address: tcp://192.168.0.7:8786}''"
    by (simp add: world2_def)
  have i: "scheduler_info (dask world2) = ''{address: tcp://10.0.0.1:8786}''"
    by (simp add: world2_def world1_def world0_def)
  from load_dask_scheduler_file_name [of world2 "DataItem ''iris.parquet''" "''dask_key''"
      None None True True "''scheduler''"] p
  have "\<exists>pre. calls_made world2 (snd (load_dask (DataItem ''iris.parquet'') ''dask_key'' None None
                                          True True ''scheduler'' world2)) =
            pre @ [WriteSchedulerFile (''scheduler'' @ ''.json''),
                   LogArtifact ''scheduler'' (''scheduler'' @ ''.json'')]"
    and "files (snd (load_dask (DataItem ''iris.parquet'') ''dask_key'' None None True True
                         ''scheduler'' world2))
         = (files world2)(''scheduler'' @ ''.json'' \<mapsto> scheduler_info (dask world2))"
    by blast+
  then show ?thesis using p f i by auto
qed

text \<open>
  C7. Two successful runs in succession with \<open>dask_persist = True\<close>, the same
  \<open>dask_key\<close> and data items that resolve to different tables: after the second run the
  only registration under \<open>dask_key\<close> is the second table, materialised; looking the
  name up gives it, and no registration under the name carries the first table.
\<close>

theorem load_dask_twice_replaces:
  assumes first: "load_dask (DataItem url1) dask_key inc_cols1 index_cols1 True refresh_data1
                    scheduler_key1 w = (Inr v1, w1)"
    and second: "load_dask (DataItem url2) dask_key inc_cols2 index_cols2 True refresh_data2
                    scheduler_key2 w1 = (Inr v2, w2)"
    and data: "store w url1 = Some t1" "store w url2 = Some t2" "t1 \<noteq> t2"
  shows "registrations dask_key w1 = [(dask_key, \<lparr>frame_data = t1, materialized = True\<rparr>)]
         \<and> registrations dask_key w2 = [(dask_key, \<lparr>frame_data = t2, materialized = True\<rparr>)]
         \<and> map_of (datasets (dask w2)) dask_key = Some \<lparr>frame_data = t2, materialized = True\<rparr>
         \<and> (\<forall>df. (dask_key, df) \<in> set (datasets (dask w2)) \<longrightarrow> frame_data df \<noteq> t1)"
proof -
  from first obtain dc where c: "dask_client (ctx w) = Some dc"
    by (auto elim: load_dask_successD)
  from first have w1: "w1 = snd (load_dask (DataItem url1) dask_key inc_cols1 index_cols1 True
                                   refresh_data1 scheduler_key1 w)"
    by simp
  have c1: "dask_client (ctx w1) = Some dc" and s1: "store w1 url2 = Some t2"
    and r1: "registrations dask_key w1 = [(dask_key, \<lparr>frame_data = t1, materialized = True\<rparr>)]"
    unfolding w1 load_dask_persist_eq [OF c data(1)]
    using c data(2) by (simp_all add: registrations_def)
  from second have w2: "w2 = snd (load_dask (DataItem url2) dask_key inc_cols2 index_cols2 True
                                   refresh_data2 scheduler_key2 w1)"
    by simp
  have r2: "registrations dask_key w2 = [(dask_key, \<lparr>frame_data = t2, materialized = True\<rparr>)]"
    unfolding w2 load_dask_persist_eq [OF c1 s1] by (simp add: registrations_def)
  have m2: "map_of (datasets (dask w2)) dask_key = Some \<lparr>frame_data = t2, materialized = True\<rparr>"
    unfolding w2 load_dask_persist_eq [OF c1 s1]
    by (simp add: map_add_def map_of_unpublished)
  have "\<And>df. (dask_key, df) \<in> set (datasets (dask w2)) \<Longrightarrow> frame_data df \<noteq> t1"
  proof -
    fix df assume "(dask_key, df) \<in> set (datasets (dask w2))"
    then have "(dask_key, df) \<in> set (registrations dask_key w2)"
      by (simp add: registrations_def)
    with r2 have "df = \<lparr>frame_data = t2, materialized = True\<rparr>" by simp
    with data(3) show "frame_data df \<noteq> t1" by simp
  qed
  with r1 r2 m2 show ?thesis by blast
qed

theorem load_dask_twice_replaces_witness:
  "load_dask (DataItem ''iris.parquet'') ''dask_key'' None None True True ''scheduler'' world0
     = (Inr None, after_iris)
   \<and> load_dask (DataItem ''wine.parquet'') ''dask_key'' None None True True ''scheduler''
       after_iris = (Inr None, after_wine)
   \<and> store world0 ''iris.parquet'' = Some iris \<and> store world0 ''wine.parquet'' = Some wine
   \<and> iris \<noteq> wine
   \<and> registrations ''dask_key'' after_iris
       = [(''dask_key'', \<lparr>frame_data = iris, materialized = True\<rparr>)]
   \<and> registrations ''dask_key'' after_wine
       = [(''dask_key'', \<lparr>frame_data = wine, materialized = True\<rparr>)]"
proof -
  have a: "load_dask (DataItem ''iris.parquet'') ''dask_key'' None None True True ''scheduler''
             world0 = (Inr None, after_iris)"
    unfolding after_iris_def
    by (simp add: load_dask_persist_eq [OF world0_client world0_iris])
  have c: "dask_client (ctx after_iris) = Some (Client 1)"
    and s: "store after_iris ''wine.parquet'' = Some wine"
    unfolding after_iris_def load_dask_persist_eq [OF world0_client world0_iris]
    by (simp_all add: world0_def)
  have b: "load_dask (DataItem ''wine.parquet'') ''dask_key'' None None True True ''scheduler''
             after_iris = (Inr None, after_wine)"
    unfolding after_wine_def
    by (simp add: load_dask_persist_eq [OF c s])
  from load_dask_twice_replaces [OF a b world0_iris world0_wine iris_neq_wine]
  show ?thesis using a b world0_iris world0_wine iris_neq_wine by simp
qed

text \<open>
  C8. \<open>refresh_data\<close> has no effect: two runs that differ only in its value give the
  same result (the same error or the same return value) and leave the same world (the
  same registry, files, artifacts and calls). In particular a run with
  \<open>refresh_data = False\<close> on a cluster where \<open>dask_key\<close> is already published, with a
  client on the context and a data item that resolves, succeeds: nothing is raised.
\<close>

theorem load_dask_refresh_data_ignored:
  "load_dask src_data dask_key inc_cols index_cols dask_persist True scheduler_key w
     = load_dask src_data dask_key inc_cols index_cols dask_persist False scheduler_key w
   \<and> (\<forall>dc url t. dask_client (ctx w) = Some dc \<and> store w url = Some t \<and> in_datasets dask_key w
         \<longrightarrow> fst (load_dask (DataItem url) dask_key inc_cols index_cols dask_persist False
                     scheduler_key w) = Inr None)"
proof (intro conjI allI impI)
  show "load_dask src_data dask_key inc_cols index_cols dask_persist True scheduler_key w
     = load_dask src_data dask_key inc_cols index_cols dask_persist False scheduler_key w"
    by (simp add: load_dask_def)
next
  fix dc url t
  assume "dask_client (ctx w) = Some dc \<and> store w url = Some t \<and> in_datasets dask_key w"
  then have c: "dask_client (ctx w) = Some dc" and s: "store w url = Some t" by simp_all
  show "fst (load_dask (DataItem url) dask_key inc_cols index_cols dask_persist False
               scheduler_key w) = Inr None"
    by (cases dask_persist)
       (simp_all add: load_dask_persist_eq [OF c s] load_dask_no_persist_eq [OF c s])
qed

theorem load_dask_refresh_data_ignored_witness:
  "dask_client (ctx world1) = Some (Client 1) \<and> store world1 ''iris.parquet'' = Some iris
   \<and> in_datasets ''dask_key'' world1
   \<and> fst (load_dask (DataItem ''iris.parquet'') ''dask_key'' None None True False ''scheduler''
            world1) = Inr None
   \<and> load_dask (DataItem ''iris.parquet'') ''dask_key'' None None True True ''scheduler'' world1
     = load_dask (DataItem ''iris.parquet'') ''dask_key'' None None True False ''scheduler''
         world1"
  using load_dask_refresh_data_ignored [of "DataItem ''iris.parquet''" "''dask_key''" None None
      True "''scheduler''" world1]
    world1_client world1_iris world1_registered
  by blast

text \<open>
  C9. A run calls \<open>unpublish_dataset\<close> only for \<open>dask_key\<close>, only when
  \<open>dask_persist\<close> is set, and only when the registry is non-empty and holds
  \<open>dask_key\<close>. The registry meant is the one at the time of the call: the calls before
  it are \<open>as_df\<close> and \<open>persist\<close>, which leave the registry as the run found it
  (\<open>as_df_datasets\<close>, \<open>persist_datasets\<close>).
\<close>

theorem load_dask_unpublish_only_registered:
  assumes "UnpublishDataset n
             \<in> set (calls_made w (snd (load_dask src_data dask_key inc_cols index_cols
                                          dask_persist refresh_data scheduler_key w)))"
  shows "n = dask_key \<and> dask_persist \<and> datasets (dask w) \<noteq> []
         \<and> dask_key \<in> fst ` set (datasets (dask w))
         \<and> (\<exists>df post. calls_made w (snd (load_dask src_data dask_key inc_cols index_cols
                                            dask_persist refresh_data scheduler_key w))
                = [AsDf src_data, Persist df, UnpublishDataset dask_key] @ post)"
proof -
  from load_dask_calls [of src_data dask_key inc_cols index_cols dask_persist refresh_data
      scheduler_key w]
  obtain es where t: "trace (snd (load_dask src_data dask_key inc_cols index_cols dask_persist
                                 refresh_data scheduler_key w)) = trace w @ es"
    and u: "\<forall>n. UnpublishDataset n \<in> set es
           \<longrightarrow> n = dask_key \<and> dask_persist \<and> datasets_truthy w \<and> in_datasets dask_key w
               \<and> (\<exists>df post. es = [AsDf src_data, Persist df, UnpublishDataset dask_key] @ post)"
    by blast
  from t have c: "calls_made w (snd (load_dask src_data dask_key inc_cols index_cols dask_persist
                                 refresh_data scheduler_key w)) = es"
    by (simp add: calls_made_def)
  with assms have "UnpublishDataset n \<in> set es" by simp
  with u have "n = dask_key \<and> dask_persist \<and> datasets_truthy w \<and> in_datasets dask_key w
               \<and> (\<exists>df post. es = [AsDf src_data, Persist df, UnpublishDataset dask_key] @ post)"
    by blast
  then show ?thesis
    unfolding c by (simp add: datasets_truthy_def in_datasets_def)
qed

theorem load_dask_unpublish_only_registered_witness:
  "UnpublishDataset ''dask_key''
     \<in> set (calls_made world1 (snd (load_dask (DataItem ''iris.parquet'') ''dask_key'' None None
                                        True True ''scheduler'' world1)))
   \<and> datasets (dask world1) \<noteq> []
   \<and> ''dask_key'' \<in> fst ` set (datasets (dask world1))"
proof -
  have u: "UnpublishDataset ''dask_key''
     \<in> set (calls_made world1 (snd (load_dask (DataItem ''iris.parquet'') ''dask_key'' None None
                                        True True ''scheduler'' world1)))"
    by (simp add: load_dask_persist_eq [OF world1_client world1_iris] world1_registered)
  from load_dask_unpublish_only_registered [OF u] show ?thesis using u by simp
qed

text \<open>
  C10. After a successful run the \<open>dask_client\<close> attribute of the context is the handle
  that was read from it at the start: the assignment of line 91 stores the handle back
  and no other.
\<close>

theorem load_dask_keeps_client:
  assumes "load_dask src_data dask_key inc_cols index_cols dask_persist refresh_data
             scheduler_key w = (Inr v, w')"
  shows "\<exists>dc. dask_client (ctx w) = Some dc \<and> dask_client (ctx w') = Some dc"
proof -
  from assms obtain dc where "dask_client (ctx w) = Some dc"
    by (auto elim: load_dask_successD)
  moreover from load_dask_success_world [OF assms]
  have "dask_client (ctx w') = dask_client (ctx w)" by simp
  ultimately show ?thesis by simp
qed

theorem load_dask_keeps_client_witness:
  "load_dask (DataItem ''iris.parquet'') ''dask_key'' None None True True ''scheduler'' world0
     = (Inr None, snd (load_dask (DataItem ''iris.parquet'') ''dask_key'' None None True True
                         ''scheduler'' world0))
   \<and> dask_client (ctx (snd (load_dask (DataItem ''iris.parquet'') ''dask_key'' None None True
                                True ''scheduler'' world0))) = Some (Client 1)"
proof -
  have p: "load_dask (DataItem ''iris.parquet'') ''dask_key'' None None True True ''scheduler''
             world0
           = (Inr None, snd (load_dask (DataItem ''iris.parquet'') ''dask_key'' None None True
                               True ''scheduler'' world0))"
    by (simp add: load_dask_persist_eq [OF world0_client world0_iris])
  from load_dask_keeps_client [OF p] show ?thesis using p world0_client by simp
qed

end
